theory Spec2Isabelle
  imports Complex_Main "HOL-Library.AList"
begin

section \<open>Python values used by \<open>tools/run_coverage.py\<close>\<close>

subsection \<open>Strings\<close>

text \<open>
  A Python \<open>str\<close> is a sequence of Unicode code points. It is modelled as a list of
  natural numbers, one per code point, so that \<open>len\<close>, \<open>in\<close> and \<open>strip\<close> count what
  Python counts. \<open>lit\<close> turns an ASCII literal of the source into such a list.
\<close>

type_synonym pystr = "nat list"

definition lit :: "string \<Rightarrow> pystr" where
  "lit s = map of_char s"

text \<open>\<open>sep.join(xs)\<close>\<close>

fun join :: "pystr \<Rightarrow> pystr list \<Rightarrow> pystr" where
  "join sep [] = []"
| "join sep [x] = x"
| "join sep (x # y # ys) = x @ sep @ join sep (y # ys)"

text \<open>
  \<open>str.isspace\<close> for one code point: the code points CPython lists as whitespace
  (bidirectional class WS, B or S, or category Zs).
\<close>

definition isspace :: "nat \<Rightarrow> bool" where
  "isspace c \<longleftrightarrow>
     (9 \<le> c \<and> c \<le> 13) \<or> (28 \<le> c \<and> c \<le> 32) \<or> c = 133 \<or> c = 160 \<or> c = 5760 \<or>
     (8192 \<le> c \<and> c \<le> 8202) \<or> c = 8232 \<or> c = 8233 \<or> c = 8239 \<or> c = 8287 \<or> c = 12288"

text \<open>\<open>s.strip()\<close>: leading and trailing whitespace removed.\<close>

definition strip :: "pystr \<Rightarrow> pystr" where
  "strip s = rev (dropWhile isspace (rev (dropWhile isspace s)))"

subsection \<open>Floats\<close>

text \<open>
  A Python \<open>float\<close> is an IEEE 754 binary64 value. A finite value is modelled by the
  rational number it denotes (\<open>Finite 0\<close> is \<open>+0.0\<close>), next to the negative zero, the two
  infinities and NaN. Arithmetic rounds its exact result to the nearest binary64 value,
  ties to even.
\<close>

datatype pyfloat = Finite rat | NegZero | PosInf | NegInf | NaN

definition pow2 :: "int \<Rightarrow> rat" where
  "pow2 k = (if 0 \<le> k then 2 ^ nat k else 1 / 2 ^ nat (- k))"

text \<open>\<open>int.bit_length\<close>: the number of binary digits of a positive integer.\<close>

function bit_length :: "int \<Rightarrow> int" where
  "bit_length n = (if n \<le> 0 then 0 else 1 + bit_length (n div 2))"
  by pat_completeness auto
termination
  by (relation "measure nat") auto

declare bit_length.simps [simp del]

text \<open>\<open>floor_log2 a\<close> is the integer \<open>e\<close> with \<open>2^e \<le> a < 2^(e+1)\<close>, for \<open>a > 0\<close>.\<close>

definition floor_log2 :: "rat \<Rightarrow> int" where
  "floor_log2 a =
     (case quotient_of a of (p, q) \<Rightarrow>
        let k = bit_length p - bit_length q
        in if pow2 k \<le> a then k else k - 1)"

definition round_half_even :: "rat \<Rightarrow> int" where
  "round_half_even x =
     (let f = \<lfloor>x\<rfloor>; d = x - of_int f
      in if d < 1 / 2 then f
         else if 1 / 2 < d then f + 1
         else if even f then f else f + 1)"

text \<open>The number \<open>2^1024\<close>, the least magnitude beyond the finite binary64 values.\<close>

definition two_to_1024 :: rat where
  "two_to_1024 = 179769313486231590772930519078902473361797697894230657273430081157732675805500963132708477322407536021120113879871393357658789768814416622492847430639474124377767893424865485276302219601246094119453082952085005768838150682342462881473913110540827237163350510684586298239947245938479716304835356329624224137216"

text \<open>
  Rounding of an exact rational to binary64: 53 significant bits, the least exponent
  of a unit in the last place is -1074 (subnormal numbers), a magnitude that rounds to
  \<open>2^1024\<close> overflows to an infinity, and a result of zero keeps the sign.
\<close>

definition round_double :: "rat \<Rightarrow> pyfloat" where
  "round_double r =
     (if r = 0 then Finite 0
      else
        let a = \<bar>r\<bar>;
            q = max (floor_log2 a - 52) (- 1074);
            v = of_int (round_half_even (a / pow2 q)) * pow2 q
        in if two_to_1024 \<le> v then (if r < 0 then NegInf else PosInf)
           else if v = 0 then (if r < 0 then NegZero else Finite 0)
           else Finite (if r < 0 then - v else v))"

text \<open>\<open>x + y\<close> on floats.\<close>

fun float_add :: "pyfloat \<Rightarrow> pyfloat \<Rightarrow> pyfloat" where
  "float_add NaN y = NaN"
| "float_add x NaN = NaN"
| "float_add PosInf NegInf = NaN"
| "float_add NegInf PosInf = NaN"
| "float_add PosInf y = PosInf"
| "float_add x PosInf = PosInf"
| "float_add NegInf y = NegInf"
| "float_add x NegInf = NegInf"
| "float_add NegZero y = y"
| "float_add x NegZero = x"
| "float_add (Finite a) (Finite b) = (if a + b = 0 then Finite 0 else round_double (a + b))"

text \<open>\<open>x < y\<close> and \<open>x > y\<close> on floats: false as soon as one side is NaN; the two zeros are equal.\<close>

fun float_lt :: "pyfloat \<Rightarrow> pyfloat \<Rightarrow> bool" where
  "float_lt NaN y = False"
| "float_lt x NaN = False"
| "float_lt x NegInf = False"
| "float_lt NegInf y = True"
| "float_lt PosInf y = False"
| "float_lt x PosInf = True"
| "float_lt NegZero NegZero = False"
| "float_lt NegZero (Finite b) = (0 < b)"
| "float_lt (Finite a) NegZero = (a < 0)"
| "float_lt (Finite a) (Finite b) = (a < b)"

definition float_gt :: "pyfloat \<Rightarrow> pyfloat \<Rightarrow> bool" where
  "float_gt x y = float_lt y x"

text \<open>The float a decimal literal or a decimal number in the tool's output denotes.\<close>

definition float_of_decimal :: "rat \<Rightarrow> pyfloat" where
  "float_of_decimal r = round_double r"

text \<open>Decimal digits of a non-negative integer, as \<open>str(n)\<close> gives them.\<close>

function decimal :: "int \<Rightarrow> pystr" where
  "decimal n = (if n < 10 then [nat (48 + n)] else decimal (n div 10) @ [nat (48 + n mod 10)])"
  by pat_completeness auto
termination
  by (relation "measure nat") auto

declare decimal.simps [simp del]

text \<open>
  \<open>f"{x:.2f}"\<close>: the exact value rounded to two decimals, ties to even, with the sign
  kept also when the digits are all zero; \<open>nan\<close>, \<open>inf\<close> and \<open>-inf\<close> for the others.
\<close>

definition format_2f :: "pyfloat \<Rightarrow> pystr" where
  "format_2f x =
     (case x of
        NaN \<Rightarrow> lit ''nan''
      | PosInf \<Rightarrow> lit ''inf''
      | NegInf \<Rightarrow> lit ''-inf''
      | NegZero \<Rightarrow> lit ''-0.00''
      | Finite r \<Rightarrow>
          let h = round_half_even (\<bar>r\<bar> * 100)
          in (if r < 0 then lit ''-'' else []) @ decimal (h div 100) @ lit ''.'' @
             [nat (48 + h div 10 mod 10), nat (48 + h mod 10)])"

section \<open>The environment of a run\<close>

text \<open>
  The script is a sequence of calls to the operating system and to external tools.
  A run is modelled as a function from the answers the environment gives to the
  outcome of the run and the list of calls made, in order. A \<open>Path\<close> object is
  identified with the string it prints as.
\<close>

type_synonym path = pystr

datatype error =
    RuntimeError pystr
  | CalledProcessError int "pystr list" pystr pystr
  | OSError pystr
  | JSONDecodeError
  | KeyError
  | IndexError
  | TypeError
  | ValueError
  | OverflowError

datatype stream = Stdout | Stderr

text \<open>
  The calls a run makes: \<open>print\<close>, \<open>Path.mkdir(parents=True, exist_ok=True)\<close>,
  \<open>Path.unlink\<close>, \<open>subprocess.run\<close> (command, working directory, environment
  variables, \<open>capture_output\<close>), \<open>Path.write_text\<close>, \<open>shutil.rmtree\<close>,
  \<open>shutil.copytree\<close> and \<open>shutil.copy2\<close>. A call is listed when it is made,
  whether or not it then fails.
\<close>

datatype event =
    Print stream pystr
  | Mkdir path
  | Unlink path
  | Run "pystr list" "path option" "(pystr \<times> pystr) list option" bool
  | WriteText path pystr
  | Rmtree path
  | Copytree path path
  | Copy2 path path

text \<open>
  What \<open>subprocess.run\<close> finds: the process ran and exited with a return code,
  standard output and standard error, or it could not be started (an \<open>OSError\<close>).
\<close>

datatype completed = Completed int pystr pystr | NotStarted pystr

text \<open>The value \<open>json.loads\<close> returns.\<close>

datatype json =
    JNull
  | JBool bool
  | JInt int
  | JFloat pyfloat
  | JStr pystr
  | JList "json list"
  | JDict "(pystr \<times> json) list"

text \<open>
  The answers of the environment, one field per place of the script that asks.
  A field \<open>\<dots>_error\<close> is \<open>None\<close> when the call succeeds and the message of the
  \<open>OSError\<close> when it fails.
\<close>

record environment =
  resolve :: "pystr \<Rightarrow> path"
  parent :: "path \<Rightarrow> path"
  joinpath :: "path \<Rightarrow> pystr \<Rightarrow> path"
  environ :: "(pystr \<times> pystr) list"
  coverage_mkdir_error :: "pystr option"
  glob_before :: "path \<Rightarrow> pystr \<Rightarrow> path list"
  unlink_error :: "path \<Rightarrow> pystr option"
  which :: "pystr \<Rightarrow> path option"
  ctest_process :: completed
  glob_after :: "path \<Rightarrow> pystr \<Rightarrow> path list"
  profdata_exists :: bool
  profdata_unlink_error :: "pystr option"
  merge_process :: completed
  export_process :: completed
  json_loads :: "pystr \<Rightarrow> error + json"
  float_of_str :: "pystr \<Rightarrow> pyfloat option"
  write_error :: "pystr option"
  html_exists :: bool
  html_rmtree_error :: "pystr option"
  html_mkdir_error :: "pystr option"
  show_process :: completed
  docs_exists :: bool
  docs_rmtree_error :: "pystr option"
  docs_mkdir_error :: "pystr option"
  html_items :: "error + (pystr \<times> bool) list"
  copy_error :: "pystr \<Rightarrow> pystr option"

text \<open>
  The namespace \<open>_parse_args\<close> returns. \<open>mode\<close> has the single value \<open>llvm\<close> and is
  left out; \<open>output_file\<close> is \<open>args.output\<close>.
\<close>

record arguments =
  build_dir :: pystr
  config :: pystr
  threshold :: pyfloat
  output_file :: pystr
  html_dir :: "pystr option"
  docs_dir :: "pystr option"
  project_name :: pystr
  binary :: pystr
  library :: "pystr list"
  source_root :: pystr
  llvm_profdata :: pystr
  llvm_cov :: pystr
  ignore_regex :: "pystr list"

text \<open>
  How a run ends: \<open>main\<close> returns and \<open>sys.exit\<close> gets its value, or an exception
  leaves \<open>main\<close>, which ends the interpreter with status 1.
\<close>

datatype outcome = Exit int | Raised error


text \<open>
  A step gives an error or a value, and the calls it made. \<open>and_then\<close> runs the next
  step after a step that gave a value; an error ends the sequence.
\<close>

definition and_then :: "('e + 'a) \<times> event list \<Rightarrow> ('a \<Rightarrow> ('e + 'b) \<times> event list) \<Rightarrow> ('e + 'b) \<times> event list" where
  "and_then m f =
     (case m of
        (Inl e, tr) \<Rightarrow> (Inl e, tr)
      | (Inr a, tr) \<Rightarrow> (case f a of (r, tr') \<Rightarrow> (r, tr @ tr')))"

text \<open>A call that fails with an \<open>OSError\<close> or succeeds.\<close>

definition os_call :: "event \<Rightarrow> pystr option \<Rightarrow> (error + unit) \<times> event list" where
  "os_call ev err = (case err of None \<Rightarrow> (Inr (), [ev]) | Some msg \<Rightarrow> (Inl (OSError msg), [ev]))"

section \<open>The functions of \<open>tools/run_coverage.py\<close>\<close>

text \<open>
  The leading underscore of the source's names is dropped. Every function takes the
  environment first and returns its result with the calls it made.
\<close>

definition coverage_tag :: pystr where
  "coverage_tag = lit ''[coverage] ''"

text \<open>
  \<open>_run\<close> (lines 40-43): log the command, run it with \<open>check=True\<close> and without
  capturing its output. \<open>proc\<close> is what the process does. The streams of the
  \<open>CalledProcessError\<close> are \<open>None\<close> here, written as empty strings.
\<close>

definition run :: "completed \<Rightarrow> pystr list \<Rightarrow> path option \<Rightarrow> (pystr \<times> pystr) list option \<Rightarrow> (error + unit) \<times> event list" where
  "run proc command cwd env =
     (let tr = [Print Stdout (coverage_tag @ join (lit '' '') command), Run command cwd env False]
      in case proc of
           NotStarted msg \<Rightarrow> (Inl (OSError msg), tr)
         | Completed rc out err \<Rightarrow>
             if rc \<noteq> 0 then (Inl (CalledProcessError rc command [] []), tr) else (Inr (), tr))"

text \<open>
  \<open>_clean_existing_profiles\<close> (lines 46-51): one \<open>unlink\<close> per file the glob finds;
  an \<open>OSError\<close> is caught and reported on standard error, and the loop goes on.
\<close>

fun clean_files :: "environment \<Rightarrow> path list \<Rightarrow> event list" where
  "clean_files env [] = []"
| "clean_files env (file # files) =
     (case unlink_error env file of
        None \<Rightarrow> [Unlink file]
      | Some exc \<Rightarrow>
          [Unlink file,
           Print Stderr (coverage_tag @ lit ''Warning: unable to remove '' @ file @ lit '': '' @ exc)])
     @ clean_files env files"

definition clean_existing_profiles :: "environment \<Rightarrow> path \<Rightarrow> pystr \<Rightarrow> event list" where
  "clean_existing_profiles env profile_dir pattern =
     clean_files env (glob_before env profile_dir pattern)"

text \<open>The command \<open>_run_ctests\<close> builds (lines 59-64), for the \<open>ctest\<close> found in the path.\<close>

definition ctest_command :: "path \<Rightarrow> pystr \<Rightarrow> pystr list" where
  "ctest_command ctest cfg0 =
     (let command = [ctest, lit ''--output-on-failure''];
          cfg = strip cfg0;
          cfg = (if of_char CHR ''<'' \<in> set cfg \<or> of_char CHR ''>'' \<in> set cfg then [] else cfg)
      in if cfg \<noteq> [] \<and> cfg \<noteq> lit ''.'' then command @ [lit ''-C'', cfg] else command)"

text \<open>\<open>_run_ctests\<close> (lines 54-66).\<close>

definition run_ctests :: "environment \<Rightarrow> path \<Rightarrow> pystr \<Rightarrow> (pystr \<times> pystr) list \<Rightarrow> (error + unit) \<times> event list" where
  "run_ctests env dir cfg vars =
     (case which env (lit ''ctest'') of
        None \<Rightarrow> (Inl (RuntimeError (lit ''ctest executable not found in PATH.'')), [])
      | Some ctest \<Rightarrow>
          if ctest = [] then (Inl (RuntimeError (lit ''ctest executable not found in PATH.'')), [])
          else run (ctest_process env) (ctest_command ctest cfg) (Some dir) (Some vars))"

text \<open>\<open>_merge_profiles\<close> (lines 69-73).\<close>

definition merge_profiles :: "environment \<Rightarrow> path \<Rightarrow> path list \<Rightarrow> path \<Rightarrow> (error + unit) \<times> event list" where
  "merge_profiles env profdata_tool profraw_files out =
     run (merge_process env)
       ([profdata_tool, lit ''merge'', lit ''-sparse''] @ profraw_files @ [lit ''-o'', out])
       None None"

text \<open>The options both \<open>llvm-cov\<close> commands end with (lines 85-89 and 132-136).\<close>

definition object_options :: "path list \<Rightarrow> pystr list \<Rightarrow> pystr list" where
  "object_options libraries ignore_patterns =
     concat (map (\<lambda>l. [lit ''--object'', l]) libraries) @
     concat (map (\<lambda>p. [lit ''--ignore-filename-regex'', p]) ignore_patterns)"

text \<open>
  What the handler of a failed \<open>llvm-cov\<close> prints (lines 95-99 and 142-146): the
  captured streams, each one when it is not empty.
\<close>

definition failure_echo :: "pystr \<Rightarrow> pystr \<Rightarrow> pystr \<Rightarrow> event list" where
  "failure_echo headline out err =
     [Print Stderr headline] @
     (if out \<noteq> [] then [Print Stderr out] else []) @
     (if err \<noteq> [] then [Print Stderr err] else [])"

definition export_command :: "path \<Rightarrow> path \<Rightarrow> path list \<Rightarrow> path \<Rightarrow> pystr list \<Rightarrow> pystr list" where
  "export_command cov bin libraries profdata ignore_patterns =
     [cov, lit ''export'', lit ''--summary-only'', bin, lit ''--instr-profile='' @ profdata] @
     object_options libraries ignore_patterns"

text \<open>\<open>_export_summary\<close> (lines 76-102).\<close>

definition export_summary :: "environment \<Rightarrow> path \<Rightarrow> path \<Rightarrow> path list \<Rightarrow> path \<Rightarrow> pystr list \<Rightarrow> (error + json) \<times> event list" where
  "export_summary env cov bin libraries profdata ignore_patterns =
     (let command = export_command cov bin libraries profdata ignore_patterns;
          tr = [Print Stdout (coverage_tag @ join (lit '' '') command), Run command None None True]
      in case export_process env of
           NotStarted msg \<Rightarrow> (Inl (OSError msg), tr)
         | Completed rc out err \<Rightarrow>
             if rc \<noteq> 0
             then (Inl (CalledProcessError rc command out err),
                   tr @ failure_echo (coverage_tag @ lit ''llvm-cov export failed.'') out err)
             else (json_loads env out, tr))"

definition show_command :: "path \<Rightarrow> path \<Rightarrow> path list \<Rightarrow> path \<Rightarrow> pystr list \<Rightarrow> path \<Rightarrow> pystr \<Rightarrow> pystr list" where
  "show_command cov bin libraries profdata ignore_patterns output_dir project =
     [cov, lit ''show'', bin, lit ''--instr-profile='' @ profdata, lit ''--format=html'',
      lit ''--output-dir='' @ output_dir,
      lit ''--project-title='' @ project @ lit '' Coverage'',
      lit ''--show-regions'', lit ''--show-region-summary'', lit ''--show-branch-summary'',
      lit ''--show-directory-coverage''] @
     object_options libraries ignore_patterns"

text \<open>\<open>_generate_html_report\<close> (lines 105-147).\<close>

definition generate_html_report :: "environment \<Rightarrow> path \<Rightarrow> path \<Rightarrow> path list \<Rightarrow> path \<Rightarrow> pystr list \<Rightarrow> path \<Rightarrow> pystr \<Rightarrow> (error + unit) \<times> event list" where
  "generate_html_report env cov bin libraries profdata ignore_patterns output_dir project =
     and_then (if html_exists env then os_call (Rmtree output_dir) (html_rmtree_error env)
               else (Inr (), [])) (\<lambda>_.
     and_then (os_call (Mkdir output_dir) (html_mkdir_error env)) (\<lambda>_.
       let command = show_command cov bin libraries profdata ignore_patterns output_dir project;
           tr = [Print Stdout (coverage_tag @ join (lit '' '') command), Run command None None True]
       in case show_process env of
            NotStarted msg \<Rightarrow> (Inl (OSError msg), tr)
          | Completed rc out err \<Rightarrow>
              if rc \<noteq> 0
              then (Inl (CalledProcessError rc command out err),
                    tr @ failure_echo (coverage_tag @ lit ''llvm-cov show failed.'') out err)
              else (Inr (), tr)))"

text \<open>The list \<open>lines\<close> of \<open>_write_report\<close> (lines 151-156).\<close>

definition report_lines :: "pyfloat \<Rightarrow> pyfloat \<Rightarrow> pyfloat \<Rightarrow> pystr list" where
  "report_lines line_pct func_pct region_pct =
     [lit ''Sparkle coverage summary'',
      lit ''Line coverage    : '' @ format_2f line_pct @ lit ''%'',
      lit ''Function coverage: '' @ format_2f func_pct @ lit ''%'',
      lit ''Region coverage  : '' @ format_2f region_pct @ lit ''%'']"

text \<open>The text it writes (line 157); code point 10 is the newline.\<close>

definition report_text :: "pyfloat \<Rightarrow> pyfloat \<Rightarrow> pyfloat \<Rightarrow> pystr" where
  "report_text line_pct func_pct region_pct =
     join [10] (report_lines line_pct func_pct region_pct) @ [10]"

text \<open>\<open>_write_report\<close> (lines 150-157).\<close>

definition write_report :: "environment \<Rightarrow> path \<Rightarrow> pyfloat \<Rightarrow> pyfloat \<Rightarrow> pyfloat \<Rightarrow> (error + unit) \<times> event list" where
  "write_report env output_path line_pct func_pct region_pct =
     os_call (WriteText output_path (report_text line_pct func_pct region_pct)) (write_error env)"

subsection \<open>Reading the summary\<close>

definition ok_then :: "'e + 'a \<Rightarrow> ('a \<Rightarrow> 'e + 'b) \<Rightarrow> 'e + 'b" where
  "ok_then m f = (case m of Inl e \<Rightarrow> Inl e | Inr a \<Rightarrow> f a)"

text \<open>\<open>obj[key]\<close> for a string key: only a dictionary can be indexed by a string.\<close>

fun getitem_key :: "json \<Rightarrow> pystr \<Rightarrow> error + json" where
  "getitem_key (JDict kvs) k = (case map_of kvs k of None \<Rightarrow> Inl KeyError | Some v \<Rightarrow> Inr v)"
| "getitem_key v k = Inl TypeError"

text \<open>
  \<open>obj[0]\<close>: the first element of a list, the first character of a string, a
  \<open>KeyError\<close> on a dictionary (the keys of a parsed object are strings).
\<close>

fun getitem_0 :: "json \<Rightarrow> error + json" where
  "getitem_0 (JList []) = Inl IndexError"
| "getitem_0 (JList (x # xs)) = Inr x"
| "getitem_0 (JStr []) = Inl IndexError"
| "getitem_0 (JStr (c # cs)) = Inr (JStr [c])"
| "getitem_0 (JDict kvs) = Inl KeyError"
| "getitem_0 v = Inl TypeError"

text \<open>\<open>float(v)\<close>; the parsing of a string is the environment's \<open>float_of_str\<close>.\<close>

definition to_float :: "environment \<Rightarrow> json \<Rightarrow> error + pyfloat" where
  "to_float env v =
     (case v of
        JFloat x \<Rightarrow> Inr x
      | JInt i \<Rightarrow>
          (case round_double (of_int i) of
             PosInf \<Rightarrow> Inl OverflowError
           | NegInf \<Rightarrow> Inl OverflowError
           | x \<Rightarrow> Inr x)
      | JBool b \<Rightarrow> Inr (Finite (if b then 1 else 0))
      | JStr s \<Rightarrow> (case float_of_str env s of None \<Rightarrow> Inl ValueError | Some x \<Rightarrow> Inr x)
      | JNull \<Rightarrow> Inl TypeError
      | JList xs \<Rightarrow> Inl TypeError
      | JDict kvs \<Rightarrow> Inl TypeError)"

definition percent :: "environment \<Rightarrow> json \<Rightarrow> pystr \<Rightarrow> error + pyfloat" where
  "percent env data_root k =
     ok_then (getitem_key data_root k) (\<lambda>entry.
     ok_then (getitem_key entry (lit ''percent'')) (to_float env))"

text \<open>Lines 197-200 of \<open>main\<close>: the three percentages of the first data root.\<close>

definition read_totals :: "environment \<Rightarrow> json \<Rightarrow> error + pyfloat \<times> pyfloat \<times> pyfloat" where
  "read_totals env summary =
     ok_then (getitem_key summary (lit ''data'')) (\<lambda>data.
     ok_then (getitem_0 data) (\<lambda>first.
     ok_then (getitem_key first (lit ''totals'')) (\<lambda>data_root.
     ok_then (percent env data_root (lit ''lines'')) (\<lambda>line_pct.
     ok_then (percent env data_root (lit ''functions'')) (\<lambda>func_pct.
     ok_then (percent env data_root (lit ''regions'')) (\<lambda>region_pct.
     Inr (line_pct, func_pct, region_pct)))))))"

subsection \<open>\<open>main\<close>\<close>

text \<open>The paths \<open>main\<close> computes from its arguments (lines 163-175 and 189).\<close>

definition coverage_dir :: "environment \<Rightarrow> arguments \<Rightarrow> path" where
  "coverage_dir env args = parent env (resolve env (output_file args))"

definition html_path :: "environment \<Rightarrow> arguments \<Rightarrow> path option" where
  "html_path env args =
     (case html_dir args of None \<Rightarrow> None | Some d \<Rightarrow> if d = [] then None else Some (resolve env d))"

definition docs_path :: "environment \<Rightarrow> arguments \<Rightarrow> path option" where
  "docs_path env args =
     (case docs_dir args of None \<Rightarrow> None | Some d \<Rightarrow> if d = [] then None else Some (resolve env d))"

definition prof_pattern :: "environment \<Rightarrow> arguments \<Rightarrow> path" where
  "prof_pattern env args = joinpath env (coverage_dir env args) (lit ''sparkle-%p.profraw'')"

definition profdata_path :: "environment \<Rightarrow> arguments \<Rightarrow> path" where
  "profdata_path env args = joinpath env (coverage_dir env args) (lit ''sparkle.profdata'')"

definition profraw_glob :: pystr where
  "profraw_glob = lit ''sparkle-*.profraw''"

text \<open>The environment variables of the test run (lines 178-180).\<close>

definition child_environment :: "environment \<Rightarrow> arguments \<Rightarrow> (pystr \<times> pystr) list" where
  "child_environment env args =
     AList.update (lit ''SPARKLE_SOURCE_ROOT'') (resolve env (source_root args))
       (AList.update (lit ''LLVM_PROFILE_FILE'') (prof_pattern env args) (environ env))"

text \<open>An exception that leaves \<open>main\<close>.\<close>

definition raising :: "(error + 'a) \<times> event list \<Rightarrow> (outcome + 'a) \<times> event list" where
  "raising m = (case m of (Inl e, tr) \<Rightarrow> (Inl (Raised e), tr) | (Inr a, tr) \<Rightarrow> (Inr a, tr))"

text \<open>Lines 161-182: create the coverage directory, remove old profiles, run the tests.\<close>

definition prepare_and_test :: "environment \<Rightarrow> arguments \<Rightarrow> (error + unit) \<times> event list" where
  "prepare_and_test env args =
     and_then (os_call (Mkdir (coverage_dir env args)) (coverage_mkdir_error env)) (\<lambda>_.
     and_then (Inr (), clean_existing_profiles env (coverage_dir env args) profraw_glob) (\<lambda>_.
       run_ctests env (resolve env (build_dir args)) (config args) (child_environment env args)))"

definition no_profiles_message :: pystr where
  "no_profiles_message =
     coverage_tag @ lit ''No .profraw files were generated; check instrumentation settings.''"

text \<open>
  Lines 184-193: collect the raw profiles, return 1 when there is none, remove an old
  profile database and merge.
\<close>

definition collect_and_merge :: "environment \<Rightarrow> arguments \<Rightarrow> (outcome + unit) \<times> event list" where
  "collect_and_merge env args =
     (let profraw_files = glob_after env (coverage_dir env args) profraw_glob
      in if profraw_files = [] then (Inl (Exit 1), [Print Stderr no_profiles_message])
         else raising
           (and_then (if profdata_exists env
                      then os_call (Unlink (profdata_path env args)) (profdata_unlink_error env)
                      else (Inr (), [])) (\<lambda>_.
              merge_profiles env (resolve env (llvm_profdata args)) profraw_files
                (profdata_path env args))))"

text \<open>Lines 195-206: export the summary, read and print the percentages, write the report.\<close>

definition export_and_report :: "environment \<Rightarrow> arguments \<Rightarrow> (error + pyfloat \<times> pyfloat \<times> pyfloat) \<times> event list" where
  "export_and_report env args =
     and_then (export_summary env (resolve env (llvm_cov args)) (resolve env (binary args))
                 (map (resolve env) (library args)) (profdata_path env args) (ignore_regex args))
       (\<lambda>summary.
     and_then (read_totals env summary, []) (\<lambda>(line_pct, func_pct, region_pct).
     and_then (Inr (),
        [Print Stdout (coverage_tag @ lit ''Line coverage    : '' @ format_2f line_pct @ lit ''%''),
         Print Stdout (coverage_tag @ lit ''Function coverage: '' @ format_2f func_pct @ lit ''%''),
         Print Stdout (coverage_tag @ lit ''Region coverage  : '' @ format_2f region_pct @ lit ''%'')])
       (\<lambda>_.
     and_then (write_report env (output_file args) line_pct func_pct region_pct) (\<lambda>_.
       (Inr (line_pct, func_pct, region_pct), [])))))"

text \<open>
  Lines 224-229: copy every entry of the HTML directory; the flag of an entry is
  \<open>item.is_dir()\<close>.
\<close>

fun copy_items :: "environment \<Rightarrow> path \<Rightarrow> path \<Rightarrow> (pystr \<times> bool) list \<Rightarrow> (error + unit) \<times> event list" where
  "copy_items env html docs [] = (Inr (), [])"
| "copy_items env html docs ((name, is_dir) # items) =
     and_then
       (os_call
          (if is_dir then Copytree (joinpath env html name) (joinpath env docs name)
           else Copy2 (joinpath env html name) (joinpath env docs name))
          (copy_error env name))
       (\<lambda>_. copy_items env html docs items)"

text \<open>Lines 220-230: the copy of the HTML report into the documentation directory.\<close>

definition copy_docs :: "environment \<Rightarrow> path \<Rightarrow> path \<Rightarrow> (error + unit) \<times> event list" where
  "copy_docs env html docs =
     and_then (if docs_exists env then os_call (Rmtree docs) (docs_rmtree_error env)
               else (Inr (), [])) (\<lambda>_.
     and_then (os_call (Mkdir docs) (docs_mkdir_error env)) (\<lambda>_.
     and_then (html_items env, []) (\<lambda>items.
     and_then (copy_items env html docs items) (\<lambda>_.
       (Inr (), [Print Stdout (coverage_tag @ lit ''Documentation copy stored at: '' @ docs)])))))"

definition docs_without_html_message :: pystr where
  "docs_without_html_message =
     coverage_tag @ lit ''docs-dir specified without html-dir; skipping docs copy.''"

text \<open>Lines 208-232: the HTML report and its copy.\<close>

definition publish :: "environment \<Rightarrow> arguments \<Rightarrow> (error + unit) \<times> event list" where
  "publish env args =
     (case html_path env args of
        Some html \<Rightarrow>
          and_then (generate_html_report env (resolve env (llvm_cov args)) (resolve env (binary args))
                      (map (resolve env) (library args)) (profdata_path env args) (ignore_regex args)
                      html (project_name args)) (\<lambda>_.
          and_then (Inr (), [Print Stdout (coverage_tag @ lit ''HTML report generated at: '' @ html)])
            (\<lambda>_.
          case docs_path env args of
            Some docs \<Rightarrow> copy_docs env html docs
          | None \<Rightarrow> (Inr (), [])))
      | None \<Rightarrow>
          (case docs_path env args of
             Some docs \<Rightarrow> (Inr (), [Print Stderr docs_without_html_message])
           | None \<Rightarrow> (Inr (), [])))"

text \<open>The literal \<open>1e-6\<close>.\<close>

definition epsilon :: pyfloat where
  "epsilon = float_of_decimal (1 / 1000000)"

text \<open>Lines 234-242: the return value of \<open>main\<close> and the message of a violation.\<close>

definition threshold_gate :: "pyfloat \<Rightarrow> pyfloat \<Rightarrow> int \<times> event list" where
  "threshold_gate thr line_pct =
     (if float_gt thr (Finite 0) \<and> float_lt (float_add line_pct epsilon) thr
      then (1, [Print Stderr (coverage_tag @ lit ''Coverage threshold violation: '' @
                  format_2f line_pct @ lit ''% < required '' @ format_2f thr @ lit ''%'')])
      else (0, []))"

text \<open>\<open>main\<close> (lines 160-242), given the parsed arguments.\<close>

definition main :: "environment \<Rightarrow> arguments \<Rightarrow> outcome \<times> event list" where
  "main env args =
     (case
        and_then (raising (prepare_and_test env args)) (\<lambda>_.
        and_then (collect_and_merge env args) (\<lambda>_.
        and_then (raising (export_and_report env args)) (\<lambda>(line_pct, func_pct, region_pct).
        and_then (raising (publish env args)) (\<lambda>_.
          case threshold_gate (threshold args) line_pct of (rc, tr) \<Rightarrow> (Inr rc, tr)))))
      of
        (Inl out, tr) \<Rightarrow> (out, tr)
      | (Inr rc, tr) \<Rightarrow> (Exit rc, tr))"

section \<open>Notions used to state the properties\<close>

text \<open>An invocation of an external tool with the given second word (\<open>merge\<close>, \<open>export\<close>, \<open>show\<close>).\<close>

fun runs_tool :: "pystr \<Rightarrow> event \<Rightarrow> bool" where
  "runs_tool verb (Run (prog # v # rest) cwd vars cap) = (v = verb)"
| "runs_tool verb ev = False"

fun writes_file :: "event \<Rightarrow> bool" where
  "writes_file (WriteText p t) = True"
| "writes_file ev = False"

text \<open>The calls that remove or copy directory trees and their files.\<close>

fun changes_tree :: "event \<Rightarrow> bool" where
  "changes_tree (Rmtree p) = True"
| "changes_tree (Copytree a b) = True"
| "changes_tree (Copy2 a b) = True"
| "changes_tree ev = False"

text \<open>
  \<open>Path.write_text\<close> opens the file for writing, which empties an existing file, and
  writes the text: the content of the files after a call that succeeds.
\<close>

definition write_text :: "path \<Rightarrow> pystr \<Rightarrow> (path \<rightharpoonup> pystr) \<Rightarrow> (path \<rightharpoonup> pystr)" where
  "write_text p t files = files(p \<mapsto> t)"

text \<open>The lines of a text: the pieces its newlines end.\<close>

fun lines_from :: "pystr \<Rightarrow> pystr \<Rightarrow> pystr list" where
  "lines_from cur [] = (if cur = [] then [] else [cur])"
| "lines_from cur (c # cs) = (if c = 10 then cur # lines_from [] cs else lines_from (cur @ [c]) cs)"

definition text_lines :: "pystr \<Rightarrow> pystr list" where
  "text_lines t = lines_from [] t"

definition is_digit :: "nat \<Rightarrow> bool" where
  "is_digit c \<longleftrightarrow> 48 \<le> c \<and> c \<le> 57"

text \<open>
  A number printed with two decimals: an optional minus sign, at least one digit, a
  point and exactly two digits.
\<close>

definition two_decimals :: "pystr \<Rightarrow> bool" where
  "two_decimals s =
     (case rev s of
        d2 # d1 # dot # front \<Rightarrow>
          is_digit d2 \<and> is_digit d1 \<and> dot = 46 \<and>
          (case rev front of
             [] \<Rightarrow> False
           | c # cs \<Rightarrow> if c = 45 then cs \<noteq> [] \<and> list_all is_digit cs
                       else list_all is_digit (c # cs))
      | _ \<Rightarrow> False)"

subsection \<open>A sample run\<close>

text \<open>
  An environment and arguments on which the definitions can be evaluated: POSIX paths,
  two old profiles of which the second cannot be removed, tools that succeed, and a
  summary with 84.5, 90.25 and 75 percent.
\<close>

definition posix_parent :: "path \<Rightarrow> path" where
  "posix_parent p = rev (drop 1 (dropWhile (\<lambda>c. c \<noteq> 47) (rev p)))"

definition posix_join :: "path \<Rightarrow> pystr \<Rightarrow> path" where
  "posix_join p n = p @ [47] @ n"

definition sample_summary :: json where
  "sample_summary =
     JDict [(lit ''data'', JList [JDict [(lit ''totals'', JDict
       [(lit ''lines'', JDict [(lit ''percent'', JFloat (Finite (169 / 2)))]),
        (lit ''functions'', JDict [(lit ''percent'', JFloat (Finite (361 / 4)))]),
        (lit ''regions'', JDict [(lit ''percent'', JFloat (Finite 75))])])]])]"

definition sample_env :: environment where
  "sample_env = \<lparr>
     resolve = (\<lambda>p. p),
     parent = posix_parent,
     joinpath = posix_join,
     environ = [(lit ''PATH'', lit ''/bin'')],
     coverage_mkdir_error = None,
     glob_before = (\<lambda>d pat. [posix_join d (lit ''sparkle-1.profraw''),
                              posix_join d (lit ''sparkle-2.profraw'')]),
     unlink_error = (\<lambda>p. if p = lit ''/w/cov/sparkle-2.profraw'' then Some (lit ''busy'') else None),
     which = (\<lambda>n. Some (lit ''/bin/'' @ n)),
     ctest_process = Completed 0 [] [],
     glob_after = (\<lambda>d pat. [posix_join d (lit ''sparkle-7.profraw'')]),
     profdata_exists = True,
     profdata_unlink_error = None,
     merge_process = Completed 0 [] [],
     export_process = Completed 0 (lit ''{}'') [],
     json_loads = (\<lambda>s. Inr sample_summary),
     float_of_str = (\<lambda>s. None),
     write_error = None,
     html_exists = True,
     html_rmtree_error = None,
     html_mkdir_error = None,
     show_process = Completed 0 [] [],
     docs_exists = False,
     docs_rmtree_error = None,
     docs_mkdir_error = None,
     html_items = Inr [(lit ''index.html'', False), (lit ''coverage'', True)],
     copy_error = (\<lambda>n. None) \<rparr>"

definition sample_args :: arguments where
  "sample_args = \<lparr>
     build_dir = lit ''/w'',
     config = lit ''Debug'',
     threshold = Finite 85,
     output_file = lit ''/w/cov/s.txt'',
     html_dir = None,
     docs_dir = None,
     project_name = lit ''Sparkle'',
     binary = lit ''/w/t'',
     library = [lit ''/w/l.a''],
     source_root = lit ''/s'',
     llvm_profdata = lit ''/bin/pd'',
     llvm_cov = lit ''/bin/cov'',
     ignore_regex = [lit ''ext/''] \<rparr>"

section \<open>Properties\<close>

subsection \<open>Floats\<close>

lemma two_to_1024_value: "two_to_1024 = 2 ^ 1024"
  by (simp add: two_to_1024_def)

subsection \<open>Sequencing\<close>

lemma and_then_Inl: "and_then (Inl e, tr) f = (Inl e, tr)"
  by (simp add: and_then_def)

lemma and_then_Inr: "and_then (Inr a, tr) f = (fst (f a), tr @ snd (f a))"
  by (simp add: and_then_def split: prod.splits)

lemma and_then_ok: "fst m = Inr a \<Longrightarrow> and_then m f = (fst (f a), snd m @ snd (f a))"
  by (cases m) (simp add: and_then_Inr)

lemma and_then_error: "fst m = Inl e \<Longrightarrow> and_then m f = (Inl e, snd m)"
  by (cases m) (simp add: and_then_Inl)

lemma raising_ok: "fst m = Inr a \<Longrightarrow> raising m = (Inr a, snd m)"
  by (cases m) (simp add: raising_def)

lemma raising_error: "fst m = Inl e \<Longrightarrow> raising m = (Inl (Raised e), snd m)"
  by (cases m) (simp add: raising_def)

lemma snd_raising: "snd (raising m) = snd m"
  by (cases m) (simp add: raising_def split: sum.splits)


lemma in_snd_and_then:
  "ev \<in> set (snd (and_then m f)) \<Longrightarrow> ev \<in> set (snd m) \<or> (\<exists>a. ev \<in> set (snd (f a)))"
proof (cases "fst m")
  case (Inl e)
  then show "ev \<in> set (snd (and_then m f)) \<Longrightarrow> ?thesis"
    by (simp add: and_then_error)
next
  case (Inr a)
  then show "ev \<in> set (snd (and_then m f)) \<Longrightarrow> ?thesis"
    by (auto simp add: and_then_ok)
qed

lemma snd_os_call: "snd (os_call ev err) = [ev]"
  by (simp add: os_call_def split: option.splits)

text \<open>When the four stages before it succeed, \<open>main\<close> ends with the threshold gate.\<close>

lemma main_reaches_gate:
  assumes "fst (prepare_and_test env args) = Inr ()"
    and "fst (collect_and_merge env args) = Inr ()"
    and "fst (export_and_report env args) = Inr (l, f, r)"
    and "fst (publish env args) = Inr ()"
  shows "main env args =
    (Exit (fst (threshold_gate (threshold args) l)),
     snd (prepare_and_test env args) @ snd (collect_and_merge env args) @
     snd (export_and_report env args) @ snd (publish env args) @
     snd (threshold_gate (threshold args) l))"
  using assms
  by (simp add: main_def raising_ok and_then_ok and_then_Inr split: prod.splits)

subsection \<open>The sample run\<close>


lemma sample_tests_pass: "fst (prepare_and_test sample_env sample_args) = Inr ()"
  by (simp add: prepare_and_test_def os_call_def and_then_Inr run_ctests_def run_def Let_def
      sample_env_def lit_def)

lemma sample_merge_passes: "fst (collect_and_merge sample_env sample_args) = Inr ()"
  by (simp add: collect_and_merge_def os_call_def and_then_Inr merge_profiles_def run_def Let_def
      raising_def sample_env_def lit_def posix_join_def)

lemma sample_totals:
  "read_totals sample_env sample_summary = Inr (Finite (169 / 2), Finite (361 / 4), Finite 75)"
  by (simp add: read_totals_def percent_def ok_then_def to_float_def sample_summary_def lit_def)

lemma sample_report_written:
  "fst (export_and_report sample_env sample_args) =
     Inr (Finite (169 / 2), Finite (361 / 4), Finite 75)"
proof -
  have "fst (export_summary sample_env c b ls p ig) = Inr sample_summary" for c b ls p ig
    by (simp add: export_summary_def Let_def sample_env_def)
  moreover have "write_error sample_env = None"
    by (simp add: sample_env_def)
  ultimately show ?thesis
    by (simp add: export_and_report_def and_then_ok and_then_Inr sample_totals write_report_def
        os_call_def)
qed

lemma sample_nothing_to_publish: "fst (publish sample_env sample_args) = Inr ()"
  by (simp add: publish_def html_path_def docs_path_def sample_args_def)

subsection \<open>The test-runner command\<close>

lemma in_set_dropWhile: "x \<in> set xs \<Longrightarrow> \<not> P x \<Longrightarrow> x \<in> set (dropWhile P xs)"
  by (induction xs) auto

lemma strip_keeps: "c \<in> set s \<Longrightarrow> \<not> isspace c \<Longrightarrow> c \<in> set (strip s)"
  by (simp add: strip_def in_set_dropWhile)

lemma angle_not_space: "\<not> isspace (of_char CHR ''<'')" "\<not> isspace (of_char CHR ''>'')"
  by (simp_all add: isspace_def)

lemma run_ctests_found:
  "which env (lit ''ctest'') = Some ctest \<Longrightarrow> ctest \<noteq> [] \<Longrightarrow>
   snd (run_ctests env dir cfg vars) =
     [Print Stdout (coverage_tag @ join (lit '' '') (ctest_command ctest cfg)),
      Run (ctest_command ctest cfg) (Some dir) (Some vars) False]"
  by (simp add: run_ctests_def run_def Let_def split: completed.splits)

text \<open>
  C3. A configuration value that contains \<open><\<close> or \<open>>\<close> is treated as empty: the
  command of the test runner is \<open>ctest --output-on-failure\<close> without \<open>-C\<close>, and that
  is the command \<open>_run_ctests\<close> logs and runs.
\<close>

theorem placeholder_configuration_is_dropped:
  assumes "of_char CHR ''<'' \<in> set cfg \<or> of_char CHR ''>'' \<in> set cfg"
    and "which env (lit ''ctest'') = Some ctest" and "ctest \<noteq> []"
  shows "ctest_command ctest cfg = [ctest, lit ''--output-on-failure''] \<and>
         snd (run_ctests env dir cfg vars) =
           [Print Stdout (coverage_tag @ ctest @ lit '' --output-on-failure''),
            Run [ctest, lit ''--output-on-failure''] (Some dir) (Some vars) False]"
proof -
  from assms(1) have "of_char CHR ''<'' \<in> set (strip cfg) \<or> of_char CHR ''>'' \<in> set (strip cfg)"
    using strip_keeps angle_not_space by blast
  then have cmd: "ctest_command ctest cfg = [ctest, lit ''--output-on-failure'']"
    by (auto simp add: ctest_command_def Let_def)
  have "join (lit '' '') [ctest, lit ''--output-on-failure''] = ctest @ lit '' --output-on-failure''"
    by (simp add: lit_def)
  with cmd run_ctests_found [OF assms(2,3)] show ?thesis
    by simp
qed

theorem placeholder_configuration_is_dropped_witness:
  "ctest_command (lit ''/bin/ctest'') (lit ''$<CONFIG>'') =
     [lit ''/bin/ctest'', lit ''--output-on-failure''] \<and>
   snd (run_ctests sample_env (lit ''/w'') (lit ''$<CONFIG>'') []) =
     [Print Stdout (coverage_tag @ lit ''/bin/ctest'' @ lit '' --output-on-failure''),
      Run [lit ''/bin/ctest'', lit ''--output-on-failure''] (Some (lit ''/w'')) (Some []) False]"
proof -
  have a: "of_char CHR ''<'' \<in> set (lit ''$<CONFIG>'') \<or> of_char CHR ''>'' \<in> set (lit ''$<CONFIG>'')"
    by (simp add: lit_def)
  have b: "which sample_env (lit ''ctest'') = Some (lit ''/bin/ctest'')"
    by (simp add: sample_env_def lit_def)
  have c: "lit ''/bin/ctest'' \<noteq> []"
    by (simp add: lit_def)
  show ?thesis
    using placeholder_configuration_is_dropped [OF a b c] by simp
qed

text \<open>
  C9. When the configuration value, stripped of surrounding whitespace, is empty or is
  the single character \<open>.\<close>, the command has no \<open>-C\<close>. Whenever the command has more
  than its two fixed words, it ends with \<open>-C\<close> and the stripped value, which is then
  not empty, not \<open>.\<close> and free of \<open><\<close> and \<open>>\<close>; and every such value is passed.
\<close>

theorem configuration_passed_only_when_named:
  "(strip cfg = [] \<or> strip cfg = lit ''.'' \<longrightarrow>
      ctest_command ctest cfg = [ctest, lit ''--output-on-failure'']) \<and>
   (ctest_command ctest cfg \<noteq> [ctest, lit ''--output-on-failure''] \<longrightarrow>
      ctest_command ctest cfg = [ctest, lit ''--output-on-failure'', lit ''-C'', strip cfg] \<and>
      strip cfg \<noteq> [] \<and> strip cfg \<noteq> lit ''.'' \<and>
      of_char CHR ''<'' \<notin> set (strip cfg) \<and> of_char CHR ''>'' \<notin> set (strip cfg)) \<and>
   (strip cfg \<noteq> [] \<and> strip cfg \<noteq> lit ''.'' \<and>
    of_char CHR ''<'' \<notin> set (strip cfg) \<and> of_char CHR ''>'' \<notin> set (strip cfg) \<longrightarrow>
      ctest_command ctest cfg = [ctest, lit ''--output-on-failure'', lit ''-C'', strip cfg])"
  by (auto simp add: ctest_command_def Let_def)

theorem configuration_passed_only_when_named_witness:
  "ctest_command (lit ''/bin/ctest'') (lit '' . '') =
     [lit ''/bin/ctest'', lit ''--output-on-failure''] \<and>
   ctest_command (lit ''/bin/ctest'') (lit ''   '') =
     [lit ''/bin/ctest'', lit ''--output-on-failure''] \<and>
   ctest_command (lit ''/bin/ctest'') (lit '' Debug '') =
     [lit ''/bin/ctest'', lit ''--output-on-failure'', lit ''-C'', lit ''Debug'']"
proof -
  have dot: "strip (lit '' . '') = lit ''.''" and blank: "strip (lit ''   '') = []"
    and debug: "strip (lit '' Debug '') = lit ''Debug''"
    by (simp_all add: strip_def lit_def isspace_def)
  have named: "ctest_command (lit ''/bin/ctest'') (lit '' Debug '') \<noteq>
      [lit ''/bin/ctest'', lit ''--output-on-failure'']"
    by (simp add: ctest_command_def Let_def debug) (simp add: lit_def)
  show ?thesis
    using configuration_passed_only_when_named [of "lit '' . ''" "lit ''/bin/ctest''"]
      configuration_passed_only_when_named [of "lit ''   ''" "lit ''/bin/ctest''"]
      configuration_passed_only_when_named [of "lit '' Debug ''" "lit ''/bin/ctest''"]
      dot blank debug named
    by simp
qed

subsection \<open>The calls of each stage\<close>

lemma clean_files_events:
  "ev \<in> set (clean_files env files) \<Longrightarrow> (\<exists>p. ev = Unlink p) \<or> (\<exists>t. ev = Print Stderr t)"
  by (induction files) (auto split: option.splits)



lemma ctest_command_shape: "\<exists>rest. ctest_command ctest cfg = ctest # lit ''--output-on-failure'' # rest"
  by (simp add: ctest_command_def Let_def)

lemma run_ctests_events:
  "ev \<in> set (snd (run_ctests env dir cfg vars)) \<Longrightarrow>
   (\<exists>t. ev = Print Stdout t) \<or>
   (\<exists>ctest rest cwd vs. ev = Run (ctest # lit ''--output-on-failure'' # rest) cwd vs False)"
  using ctest_command_shape [of _ cfg]
  by (auto simp add: run_ctests_def run_def Let_def split: option.splits if_splits completed.splits)
    metis+

lemma prepare_events:
  assumes "ev \<in> set (snd (prepare_and_test env args))"
  shows "ev = Mkdir (coverage_dir env args) \<or> (\<exists>p. ev = Unlink p) \<or> (\<exists>s t. ev = Print s t) \<or>
         (\<exists>ctest rest cwd vs. ev = Run (ctest # lit ''--output-on-failure'' # rest) cwd vs False)"
proof -
  from assms consider
      "ev \<in> set (snd (os_call (Mkdir (coverage_dir env args)) (coverage_mkdir_error env)))"
    | "ev \<in> set (clean_existing_profiles env (coverage_dir env args) profraw_glob)"
    | "ev \<in> set (snd (run_ctests env (resolve env (build_dir args)) (config args)
          (child_environment env args)))"
    unfolding prepare_and_test_def
    by (auto dest!: in_snd_and_then)
  then show ?thesis
  proof cases
    case 1
    then show ?thesis by (simp add: snd_os_call)
  next
    case 2
    then show ?thesis
      using clean_files_events by (fastforce simp add: clean_existing_profiles_def)
  next
    case 3
    then show ?thesis
      using run_ctests_events by blast
  qed
qed

lemma verbs_differ:
  "lit ''--output-on-failure'' \<noteq> lit ''merge''"
  "lit ''--output-on-failure'' \<noteq> lit ''export''"
  "lit ''--output-on-failure'' \<noteq> lit ''show''"
  by (simp_all add: lit_def)

lemma prepare_is_test_phase:
  assumes "ev \<in> set (snd (prepare_and_test env args))"
  shows "\<not> runs_tool (lit ''merge'') ev \<and> \<not> runs_tool (lit ''export'') ev \<and>
         \<not> runs_tool (lit ''show'') ev \<and> \<not> writes_file ev \<and> \<not> changes_tree ev"
  using prepare_events [OF assms] verbs_differ by auto


subsection \<open>Arguments and answers a stage does not read\<close>

lemma prepare_ignores_threshold:
  "prepare_and_test env (args\<lparr>threshold := t\<rparr>) = prepare_and_test env args"
  by (simp add: prepare_and_test_def coverage_dir_def child_environment_def prof_pattern_def)

lemma collect_ignores_threshold:
  "collect_and_merge env (args\<lparr>threshold := t\<rparr>) = collect_and_merge env args"
  by (simp add: collect_and_merge_def coverage_dir_def profdata_path_def Let_def)

lemma export_ignores_threshold:
  "export_and_report env (args\<lparr>threshold := t\<rparr>) = export_and_report env args"
  by (simp add: export_and_report_def coverage_dir_def profdata_path_def)

lemma publish_ignores_threshold:
  "publish env (args\<lparr>threshold := t\<rparr>) = publish env args"
  by (simp add: publish_def html_path_def docs_path_def coverage_dir_def profdata_path_def
      cong: option.case_cong)

subsection \<open>A run without raw profiles\<close>

text \<open>
  C2. When the tests have run and the glob after them finds no raw profile, \<open>main\<close>
  returns 1 and its only call after the tests is the message on standard error: no
  \<open>merge\<close>, \<open>export\<close> or \<open>show\<close> command is run, no file is written, no directory
  tree is removed or copied, and the threshold is not looked at.
\<close>

theorem no_profiles_exit_1:
  assumes "fst (prepare_and_test env args) = Inr ()"
    and "glob_after env (coverage_dir env args) profraw_glob = []"
  shows "main env args =
           (Exit 1, snd (prepare_and_test env args) @ [Print Stderr no_profiles_message]) \<and>
         (\<forall>ev \<in> set (snd (main env args)).
            \<not> runs_tool (lit ''merge'') ev \<and> \<not> runs_tool (lit ''export'') ev \<and>
            \<not> runs_tool (lit ''show'') ev \<and> \<not> writes_file ev \<and> \<not> changes_tree ev) \<and>
         main env (args\<lparr>threshold := t\<rparr>) = main env args"
proof -
  have stop: "collect_and_merge env args = (Inl (Exit 1), [Print Stderr no_profiles_message])"
    using assms(2) by (simp add: collect_and_merge_def)
  have run: "main env args =
      (Exit 1, snd (prepare_and_test env args) @ [Print Stderr no_profiles_message])"
    using assms(1) by (simp add: main_def raising_ok and_then_ok stop and_then_Inl)
  have quiet: "\<forall>ev \<in> set (snd (main env args)).
      \<not> runs_tool (lit ''merge'') ev \<and> \<not> runs_tool (lit ''export'') ev \<and>
      \<not> runs_tool (lit ''show'') ev \<and> \<not> writes_file ev \<and> \<not> changes_tree ev"
    using prepare_is_test_phase [of _ env args] by (auto simp add: run)
  have "main env (args\<lparr>threshold := t\<rparr>) = main env args"
    using assms(1)
    by (simp add: main_def prepare_ignores_threshold collect_ignores_threshold raising_ok
        and_then_ok stop and_then_Inl)
  with run quiet show ?thesis
    by blast
qed

theorem no_profiles_exit_1_witness:
  "main (sample_env\<lparr>glob_after := \<lambda>d pat. []\<rparr>) sample_args =
     (Exit 1,
      snd (prepare_and_test (sample_env\<lparr>glob_after := \<lambda>d pat. []\<rparr>) sample_args) @
      [Print Stderr no_profiles_message])"
proof -
  have a: "fst (prepare_and_test (sample_env\<lparr>glob_after := \<lambda>d pat. []\<rparr>) sample_args) = Inr ()"
    by (simp add: prepare_and_test_def os_call_def and_then_Inr run_ctests_def run_def Let_def
        sample_env_def lit_def)
  have b: "glob_after (sample_env\<lparr>glob_after := \<lambda>d pat. []\<rparr>)
      (coverage_dir (sample_env\<lparr>glob_after := \<lambda>d pat. []\<rparr>) sample_args) profraw_glob = []"
    by simp
  show ?thesis
    using no_profiles_exit_1 [OF a b] by simp
qed

subsection \<open>Removal of old profiles\<close>



subsection \<open>Merging and exporting\<close>

lemma run_events:
  "ev \<in> set (snd (run proc command cwd vars)) \<Longrightarrow>
   (\<exists>t. ev = Print Stdout t) \<or> ev = Run command cwd vars False"
  by (auto simp add: run_def Let_def split: completed.splits if_splits)

lemma collect_events:
  assumes "ev \<in> set (snd (collect_and_merge env args))"
  shows "(\<exists>p. ev = Unlink p) \<or> (\<exists>s t. ev = Print s t) \<or>
         (\<exists>tool rest. ev = Run (tool # lit ''merge'' # rest) None None False)"
proof (cases "glob_after env (coverage_dir env args) profraw_glob = []")
  case True
  with assms show ?thesis
    by (simp add: collect_and_merge_def)
next
  case False
  with assms consider
      "ev \<in> set (snd (if profdata_exists env
          then os_call (Unlink (profdata_path env args)) (profdata_unlink_error env)
          else (Inr (), [])))"
    | "ev \<in> set (snd (merge_profiles env (resolve env (llvm_profdata args))
          (glob_after env (coverage_dir env args) profraw_glob) (profdata_path env args)))"
    by (auto simp add: collect_and_merge_def Let_def snd_raising dest!: in_snd_and_then)
  then show ?thesis
  proof cases
    case 1
    then show ?thesis
      by (auto simp add: snd_os_call split: if_splits)
  next
    case 2
    then show ?thesis
      by (auto simp add: merge_profiles_def dest!: run_events)
  qed
qed

lemma collect_is_merge_phase:
  assumes "ev \<in> set (snd (collect_and_merge env args))"
  shows "\<not> writes_file ev \<and> \<not> changes_tree ev"
  using collect_events [OF assms] by auto

lemma failure_echo_events: "ev \<in> set (failure_echo headline out err) \<Longrightarrow> \<exists>t. ev = Print Stderr t"
  by (auto simp add: failure_echo_def split: if_splits)

lemma export_summary_events:
  "ev \<in> set (snd (export_summary env cov bin libs profdata ignore)) \<Longrightarrow>
   (\<exists>s t. ev = Print s t) \<or> (\<exists>rest. ev = Run (cov # lit ''export'' # rest) None None True)"
  by (auto simp add: export_summary_def export_command_def Let_def
      split: completed.splits if_splits dest!: failure_echo_events)

lemma export_events:
  assumes "ev \<in> set (snd (export_and_report env args))"
  shows "(\<exists>s t. ev = Print s t) \<or> (\<exists>tool rest. ev = Run (tool # lit ''export'' # rest) None None True) \<or>
         (\<exists>t. ev = WriteText (output_file args) t)"
  using assms unfolding export_and_report_def
  by (auto simp add: write_report_def snd_os_call dest!: in_snd_and_then export_summary_events)

lemma report_written:
  assumes "fst (export_and_report env args) = Inr (l, f, r)"
  shows "WriteText (output_file args) (report_text l f r) \<in> set (snd (export_and_report env args))"
  using assms unfolding export_and_report_def
  by (auto simp add: and_then_def write_report_def os_call_def
      split: prod.splits sum.splits option.splits)






subsection \<open>The HTML report, its copy and the gate\<close>

lemma gate_events: "ev \<in> set (snd (threshold_gate thr l)) \<Longrightarrow> \<exists>t. ev = Print Stderr t"
  by (auto simp add: threshold_gate_def split: if_splits)

lemma gate_status: "fst (threshold_gate thr l) = 0 \<or> fst (threshold_gate thr l) = 1"
  by (simp add: threshold_gate_def)

lemma tools_differ: "lit ''export'' \<noteq> lit ''show''" "lit ''merge'' \<noteq> lit ''show''"
  by (simp_all add: lit_def)

lemma export_is_report_phase:
  assumes "ev \<in> set (snd (export_and_report env args))"
  shows "\<not> changes_tree ev \<and> \<not> runs_tool (lit ''show'') ev \<and> (\<forall>p. ev \<noteq> Mkdir p)"
  using export_events [OF assms] tools_differ by auto

lemma collect_runs_merge_only:
  assumes "ev \<in> set (snd (collect_and_merge env args))"
  shows "\<not> runs_tool (lit ''show'') ev \<and> (\<forall>p. ev \<noteq> Mkdir p)"
  using collect_events [OF assms] tools_differ by auto

lemma publish_docs_without_html:
  assumes "docs_dir args = Some d" and "d \<noteq> []"
    and "html_dir args = None \<or> html_dir args = Some []"
  shows "publish env args = (Inr (), [Print Stderr docs_without_html_message])"
  using assms by (auto simp add: publish_def html_path_def docs_path_def)

text \<open>
  C5. With a documentation directory and no HTML directory (none given, or an empty
  one), a run whose earlier stages succeed returns the status of the threshold gate,
  0 or 1; between the report and the gate it only prints the warning on standard error.
  The text report is written, no directory tree is removed or copied, no directory other
  than the coverage directory is created and \<open>llvm-cov show\<close> is not run.
\<close>

theorem docs_without_html_only_warns:
  assumes "docs_dir args = Some d" and "d \<noteq> []"
    and "html_dir args = None \<or> html_dir args = Some []"
    and "fst (prepare_and_test env args) = Inr ()"
    and "fst (collect_and_merge env args) = Inr ()"
    and "fst (export_and_report env args) = Inr (l, f, r)"
  shows "main env args =
           (Exit (fst (threshold_gate (threshold args) l)),
            snd (prepare_and_test env args) @ snd (collect_and_merge env args) @
            snd (export_and_report env args) @ [Print Stderr docs_without_html_message] @
            snd (threshold_gate (threshold args) l)) \<and>
         (fst (main env args) = Exit 0 \<or> fst (main env args) = Exit 1) \<and>
         WriteText (output_file args) (report_text l f r) \<in> set (snd (main env args)) \<and>
         (\<forall>ev \<in> set (snd (main env args)).
            \<not> changes_tree ev \<and> \<not> runs_tool (lit ''show'') ev \<and>
            (\<forall>p. ev = Mkdir p \<longrightarrow> p = coverage_dir env args))"
proof -
  have pub: "publish env args = (Inr (), [Print Stderr docs_without_html_message])"
    using assms(1-3) by (rule publish_docs_without_html)
  have run: "main env args =
      (Exit (fst (threshold_gate (threshold args) l)),
       snd (prepare_and_test env args) @ snd (collect_and_merge env args) @
       snd (export_and_report env args) @ [Print Stderr docs_without_html_message] @
       snd (threshold_gate (threshold args) l))"
    using main_reaches_gate [OF assms(4-6), of] by (simp add: pub)
  have status: "fst (main env args) = Exit 0 \<or> fst (main env args) = Exit 1"
    using gate_status [of "threshold args" l] by (auto simp add: run)
  have written: "WriteText (output_file args) (report_text l f r) \<in> set (snd (main env args))"
    using report_written [OF assms(6)] by (simp add: run)
  have calls: "\<forall>ev \<in> set (snd (main env args)).
      \<not> changes_tree ev \<and> \<not> runs_tool (lit ''show'') ev \<and>
      (\<forall>p. ev = Mkdir p \<longrightarrow> p = coverage_dir env args)"
  proof
    fix ev
    assume "ev \<in> set (snd (main env args))"
    then consider "ev \<in> set (snd (prepare_and_test env args))"
      | "ev \<in> set (snd (collect_and_merge env args))"
      | "ev \<in> set (snd (export_and_report env args))"
      | "ev = Print Stderr docs_without_html_message"
      | "ev \<in> set (snd (threshold_gate (threshold args) l))"
      by (auto simp add: run)
    then show "\<not> changes_tree ev \<and> \<not> runs_tool (lit ''show'') ev \<and>
        (\<forall>p. ev = Mkdir p \<longrightarrow> p = coverage_dir env args)"
    proof cases
      case 1
      then show ?thesis
        using prepare_is_test_phase [OF 1] prepare_events [OF 1] by auto
    next
      case 2
      then show ?thesis
        using collect_is_merge_phase [OF 2] collect_runs_merge_only [OF 2] by auto
    next
      case 3
      then show ?thesis
        using export_is_report_phase [OF 3] by auto
    next
      case 4
      then show ?thesis by simp
    next
      case 5
      then show ?thesis
        using gate_events [OF 5] by auto
    qed
  qed
  from run status written calls show ?thesis
    by blast
qed

theorem docs_without_html_only_warns_witness:
  "main sample_env (sample_args\<lparr>docs_dir := Some (lit ''/w/docs'')\<rparr>) =
     (Exit (fst (threshold_gate (Finite 85) (Finite (169 / 2)))),
      snd (prepare_and_test sample_env sample_args) @
      snd (collect_and_merge sample_env sample_args) @
      snd (export_and_report sample_env sample_args) @
      [Print Stderr docs_without_html_message] @
      snd (threshold_gate (Finite 85) (Finite (169 / 2)))) \<and>
   WriteText (lit ''/w/cov/s.txt'') (report_text (Finite (169 / 2)) (Finite (361 / 4)) (Finite 75))
     \<in> set (snd (main sample_env (sample_args\<lparr>docs_dir := Some (lit ''/w/docs'')\<rparr>)))"
proof -
  let ?args = "sample_args\<lparr>docs_dir := Some (lit ''/w/docs'')\<rparr>"
  have prep: "prepare_and_test sample_env ?args = prepare_and_test sample_env sample_args"
    by (simp add: prepare_and_test_def coverage_dir_def child_environment_def prof_pattern_def)
  have coll: "collect_and_merge sample_env ?args = collect_and_merge sample_env sample_args"
    by (simp add: collect_and_merge_def coverage_dir_def profdata_path_def Let_def)
  have expo: "export_and_report sample_env ?args = export_and_report sample_env sample_args"
    by (simp add: export_and_report_def coverage_dir_def profdata_path_def)
  have a: "docs_dir ?args = Some (lit ''/w/docs'')" and b: "lit ''/w/docs'' \<noteq> []"
    and c: "html_dir ?args = None \<or> html_dir ?args = Some []"
    by (simp_all add: sample_args_def lit_def)
  have d: "fst (prepare_and_test sample_env ?args) = Inr ()"
    by (simp add: prep sample_tests_pass)
  have e: "fst (collect_and_merge sample_env ?args) = Inr ()"
    by (simp add: coll sample_merge_passes)
  have f: "fst (export_and_report sample_env ?args) =
      Inr (Finite (169 / 2), Finite (361 / 4), Finite 75)"
    by (simp add: expo sample_report_written)
  have thr: "threshold ?args = Finite 85" and out: "output_file ?args = lit ''/w/cov/s.txt''"
    by (simp_all add: sample_args_def)
  note run = docs_without_html_only_warns [OF a b c d e f, unfolded prep coll expo thr out]
  from run show ?thesis
    by blast
qed

lemma copy_items_trace:
  "fst (copy_items env html docs items) = Inr () \<Longrightarrow>
   snd (copy_items env html docs items) =
     map (\<lambda>item. if snd item
                  then Copytree (joinpath env html (fst item)) (joinpath env docs (fst item))
                  else Copy2 (joinpath env html (fst item)) (joinpath env docs (fst item))) items"
proof (induction items)
  case Nil
  then show ?case by simp
next
  case (Cons item items)
  obtain name is_dir where item: "item = (name, is_dir)"
    by (cases item)
  show ?case
  proof (cases "copy_error env name")
    case None
    with Cons item show ?thesis
      by (simp add: os_call_def and_then_Inr)
  next
    case (Some msg)
    with Cons.prems item show ?thesis
      by (simp add: os_call_def and_then_Inl)
  qed
qed

lemma copy_docs_trace:
  assumes "fst (copy_docs env html docs) = Inr ()" and "html_items env = Inr items"
  shows "snd (copy_docs env html docs) =
     (if docs_exists env then [Rmtree docs] else []) @ [Mkdir docs] @
     map (\<lambda>item. if snd item
                  then Copytree (joinpath env html (fst item)) (joinpath env docs (fst item))
                  else Copy2 (joinpath env html (fst item)) (joinpath env docs (fst item))) items @
     [Print Stdout (coverage_tag @ lit ''Documentation copy stored at: '' @ docs)]"
proof -
  have copied: "fst (copy_items env html docs items) = Inr ()"
    using assms
    by (auto simp add: copy_docs_def os_call_def and_then_def
        split: if_splits option.splits prod.splits sum.splits)
  show ?thesis
    using assms copy_items_trace [OF copied] copied
    by (auto simp add: copy_docs_def os_call_def and_then_def
        split: if_splits option.splits prod.splits sum.splits)
qed

lemma generate_html_trace:
  assumes "fst (generate_html_report env cov bin libs profdata ignore out project) = Inr ()"
  shows "snd (generate_html_report env cov bin libs profdata ignore out project) =
     (if html_exists env then [Rmtree out] else []) @
     [Mkdir out,
      Print Stdout (coverage_tag @ join (lit '' '')
        (show_command cov bin libs profdata ignore out project)),
      Run (show_command cov bin libs profdata ignore out project) None None True]"
  using assms
  by (auto simp add: generate_html_report_def os_call_def and_then_def Let_def
      split: if_splits option.splits prod.splits sum.splits completed.splits)

lemma publish_trace:
  assumes "fst (publish env args) = Inr ()" and "html_path env args = Some html"
  shows "snd (publish env args) =
     snd (generate_html_report env (resolve env (llvm_cov args)) (resolve env (binary args))
            (map (resolve env) (library args)) (profdata_path env args) (ignore_regex args)
            html (project_name args)) @
     [Print Stdout (coverage_tag @ lit ''HTML report generated at: '' @ html)] @
     (case docs_path env args of None \<Rightarrow> [] | Some docs \<Rightarrow> snd (copy_docs env html docs)) \<and>
     fst (generate_html_report env (resolve env (llvm_cov args)) (resolve env (binary args))
            (map (resolve env) (library args)) (profdata_path env args) (ignore_regex args)
            html (project_name args)) = Inr () \<and>
     (\<forall>docs. docs_path env args = Some docs \<longrightarrow> fst (copy_docs env html docs) = Inr ())"
  using assms
  by (auto simp add: publish_def and_then_def split: option.splits prod.splits sum.splits)

text \<open>
  C10. The threshold gate comes last. When the stages before it succeed and the measured
  line coverage violates the threshold, \<open>main\<close> returns 1 after exactly the calls of a
  run of the same arguments with the gate disabled (threshold 0, which returns 0),
  followed by one message on standard error. Those calls hold the writing of the report
  and, with an HTML directory, the \<open>llvm-cov show\<close> run, and, with a documentation
  directory too, the copy of every entry of the HTML directory.
\<close>

theorem gate_failure_keeps_reports:
  assumes "fst (prepare_and_test env args) = Inr ()"
    and "fst (collect_and_merge env args) = Inr ()"
    and "fst (export_and_report env args) = Inr (l, f, r)"
    and "fst (publish env args) = Inr ()"
    and "float_gt (threshold args) (Finite 0)"
    and "float_lt (float_add l epsilon) (threshold args)"
  shows "main env args =
           (Exit 1,
            snd (prepare_and_test env args) @ snd (collect_and_merge env args) @
            snd (export_and_report env args) @ snd (publish env args) @
            [Print Stderr (coverage_tag @ lit ''Coverage threshold violation: '' @
               format_2f l @ lit ''% < required '' @ format_2f (threshold args) @ lit ''%'')]) \<and>
         main env (args\<lparr>threshold := Finite 0\<rparr>) =
           (Exit 0,
            snd (prepare_and_test env args) @ snd (collect_and_merge env args) @
            snd (export_and_report env args) @ snd (publish env args)) \<and>
         WriteText (output_file args) (report_text l f r) \<in> set (snd (export_and_report env args)) \<and>
         (\<forall>html. html_path env args = Some html \<longrightarrow>
            Run (show_command (resolve env (llvm_cov args)) (resolve env (binary args))
                   (map (resolve env) (library args)) (profdata_path env args) (ignore_regex args)
                   html (project_name args)) None None True \<in> set (snd (publish env args)) \<and>
            (\<forall>docs items. docs_path env args = Some docs \<and> html_items env = Inr items \<longrightarrow>
               (\<forall>item \<in> set items.
                  (if snd item
                   then Copytree (joinpath env html (fst item)) (joinpath env docs (fst item))
                   else Copy2 (joinpath env html (fst item)) (joinpath env docs (fst item)))
                  \<in> set (snd (publish env args)))))"
proof -
  have gate: "threshold_gate (threshold args) l =
      (1, [Print Stderr (coverage_tag @ lit ''Coverage threshold violation: '' @
             format_2f l @ lit ''% < required '' @ format_2f (threshold args) @ lit ''%'')])"
    using assms(5,6) by (simp add: threshold_gate_def)
  have failing: "main env args =
      (Exit 1,
       snd (prepare_and_test env args) @ snd (collect_and_merge env args) @
       snd (export_and_report env args) @ snd (publish env args) @
       [Print Stderr (coverage_tag @ lit ''Coverage threshold violation: '' @
          format_2f l @ lit ''% < required '' @ format_2f (threshold args) @ lit ''%'')])"
    using main_reaches_gate [OF assms(1-4)] by (simp add: gate)
  have open_gate: "threshold_gate (Finite 0) l = (0, [])"
    by (simp add: threshold_gate_def float_gt_def)
  have passing: "main env (args\<lparr>threshold := Finite 0\<rparr>) =
      (Exit 0,
       snd (prepare_and_test env args) @ snd (collect_and_merge env args) @
       snd (export_and_report env args) @ snd (publish env args))"
    using main_reaches_gate [of env "args\<lparr>threshold := Finite 0\<rparr>" l f r] assms(1-4)
    by (simp add: prepare_ignores_threshold collect_ignores_threshold export_ignores_threshold
        publish_ignores_threshold open_gate)
  have html: "Run (show_command (resolve env (llvm_cov args)) (resolve env (binary args))
        (map (resolve env) (library args)) (profdata_path env args) (ignore_regex args)
        html (project_name args)) None None True \<in> set (snd (publish env args))"
    if "html_path env args = Some html" for html
    using publish_trace [OF assms(4) that] by (simp add: generate_html_trace)
  have docs: "(if snd item
        then Copytree (joinpath env html (fst item)) (joinpath env docs (fst item))
        else Copy2 (joinpath env html (fst item)) (joinpath env docs (fst item)))
       \<in> set (snd (publish env args))"
    if "html_path env args = Some html" and "docs_path env args = Some docs"
      and "html_items env = Inr items" and "item \<in> set items" for html docs items item
  proof -
    have "fst (copy_docs env html docs) = Inr ()"
      using publish_trace [OF assms(4) that(1)] that(2) by simp
    then show ?thesis
      using publish_trace [OF assms(4) that(1)] that(2,4) copy_docs_trace [OF _ that(3)]
      by auto
  qed
  from failing passing report_written [OF assms(3)] html docs show ?thesis
    by blast
qed

lemma sample_formats:
  "format_2f (Finite (169 / 2)) = lit ''84.50''"
  "format_2f (Finite (361 / 4)) = lit ''90.25''"
  "format_2f (Finite 75) = lit ''75.00''"
  "format_2f (Finite 85) = lit ''85.00''"
  by (simp_all add: format_2f_def round_half_even_def Let_def lit_def decimal.simps)

lemma sample_below_threshold: "float_lt (float_add (Finite (169 / 2)) epsilon) (Finite 85)"
  by code_simp

theorem gate_failure_keeps_reports_witness:
  "main sample_env
     (sample_args\<lparr>html_dir := Some (lit ''/w/html''), docs_dir := Some (lit ''/w/docs'')\<rparr>) =
     (Exit 1,
      snd (main sample_env
        (sample_args\<lparr>html_dir := Some (lit ''/w/html''), docs_dir := Some (lit ''/w/docs''),
           threshold := Finite 0\<rparr>)) @
      [Print Stderr (lit ''[coverage] Coverage threshold violation: 84.50% < required 85.00%'')]) \<and>
   fst (main sample_env
     (sample_args\<lparr>html_dir := Some (lit ''/w/html''), docs_dir := Some (lit ''/w/docs''),
        threshold := Finite 0\<rparr>)) = Exit 0 \<and>
   WriteText (lit ''/w/cov/s.txt'') (report_text (Finite (169 / 2)) (Finite (361 / 4)) (Finite 75))
     \<in> set (snd (main sample_env
        (sample_args\<lparr>html_dir := Some (lit ''/w/html''), docs_dir := Some (lit ''/w/docs'')\<rparr>))) \<and>
   Copy2 (lit ''/w/html/index.html'') (lit ''/w/docs/index.html'')
     \<in> set (snd (main sample_env
        (sample_args\<lparr>html_dir := Some (lit ''/w/html''), docs_dir := Some (lit ''/w/docs'')\<rparr>))) \<and>
   Copytree (lit ''/w/html/coverage'') (lit ''/w/docs/coverage'')
     \<in> set (snd (main sample_env
        (sample_args\<lparr>html_dir := Some (lit ''/w/html''), docs_dir := Some (lit ''/w/docs'')\<rparr>)))"
proof -
  let ?args = "sample_args\<lparr>html_dir := Some (lit ''/w/html''), docs_dir := Some (lit ''/w/docs'')\<rparr>"
  have prep: "prepare_and_test sample_env ?args = prepare_and_test sample_env sample_args"
    by (simp add: prepare_and_test_def coverage_dir_def child_environment_def prof_pattern_def)
  have coll: "collect_and_merge sample_env ?args = collect_and_merge sample_env sample_args"
    by (simp add: collect_and_merge_def coverage_dir_def profdata_path_def Let_def)
  have expo: "export_and_report sample_env ?args = export_and_report sample_env sample_args"
    by (simp add: export_and_report_def coverage_dir_def profdata_path_def)
  have a: "fst (prepare_and_test sample_env ?args) = Inr ()"
    by (simp add: prep sample_tests_pass)
  have b: "fst (collect_and_merge sample_env ?args) = Inr ()"
    by (simp add: coll sample_merge_passes)
  have c: "fst (export_and_report sample_env ?args) =
      Inr (Finite (169 / 2), Finite (361 / 4), Finite 75)"
    by (simp add: expo sample_report_written)
  have html: "html_path sample_env ?args = Some (lit ''/w/html'')"
    and docs: "docs_path sample_env ?args = Some (lit ''/w/docs'')"
    by (simp_all add: html_path_def docs_path_def sample_env_def lit_def)
  have d: "fst (publish sample_env ?args) = Inr ()"
    by (simp add: publish_def html docs generate_html_report_def copy_docs_def os_call_def
        and_then_Inr Let_def)
      (simp add: sample_env_def os_call_def and_then_Inr)
  have thr: "threshold ?args = Finite 85" and out: "output_file ?args = lit ''/w/cov/s.txt''"
    by (simp_all add: sample_args_def)
  have e: "float_gt (threshold ?args) (Finite 0)"
    by (simp add: thr float_gt_def)
  have f: "float_lt (float_add (Finite (169 / 2)) epsilon) (threshold ?args)"
    by (simp add: thr sample_below_threshold)
  have items: "html_items sample_env = Inr [(lit ''index.html'', False), (lit ''coverage'', True)]"
    by (simp add: sample_env_def)
  have paths: "joinpath sample_env (lit ''/w/html'') (lit ''index.html'') = lit ''/w/html/index.html''"
    "joinpath sample_env (lit ''/w/docs'') (lit ''index.html'') = lit ''/w/docs/index.html''"
    "joinpath sample_env (lit ''/w/html'') (lit ''coverage'') = lit ''/w/html/coverage''"
    "joinpath sample_env (lit ''/w/docs'') (lit ''coverage'') = lit ''/w/docs/coverage''"
    by (simp_all add: sample_env_def posix_join_def lit_def)
  have message: "coverage_tag @ lit ''Coverage threshold violation: '' @ lit ''84.50'' @
      lit ''% < required '' @ lit ''85.00'' @ lit ''%'' =
      lit ''[coverage] Coverage threshold violation: 84.50% < required 85.00%''"
    by (simp add: coverage_tag_def lit_def)
  note run = gate_failure_keeps_reports [OF a b c d e f, unfolded thr out sample_formats message]
  from run have copies: "\<forall>item \<in> set [(lit ''index.html'', False), (lit ''coverage'', True)].
      (if snd item
       then Copytree (joinpath sample_env (lit ''/w/html'') (fst item))
              (joinpath sample_env (lit ''/w/docs'') (fst item))
       else Copy2 (joinpath sample_env (lit ''/w/html'') (fst item))
              (joinpath sample_env (lit ''/w/docs'') (fst item)))
      \<in> set (snd (publish sample_env ?args))"
    using html docs items by blast
  then have copied: "Copy2 (lit ''/w/html/index.html'') (lit ''/w/docs/index.html'')
        \<in> set (snd (publish sample_env ?args))"
      "Copytree (lit ''/w/html/coverage'') (lit ''/w/docs/coverage'')
        \<in> set (snd (publish sample_env ?args))"
    by (simp_all add: paths)
  from run copied show ?thesis
    by simp
qed

subsection \<open>The threshold gate\<close>

lemma threshold_85: "float_of_decimal 85 = Finite 85"
  by code_simp

lemma just_below_85_passes:
  "\<not> float_lt (float_add (float_of_decimal (849999995 / 10000000)) epsilon) (Finite 85)"
  by code_simp

lemma well_below_85_fails:
  "float_lt (float_add (float_of_decimal (8499 / 100)) epsilon) (Finite 85)"
  by code_simp

text \<open>
  C1. The gate returns 1 exactly when the threshold is greater than zero and the line
  coverage plus \<open>1e-6\<close> is below the threshold, and 0 otherwise; with the threshold 85.0
  the coverage 84.9999995 passes and 84.99 fails; a threshold of zero (of either sign),
  any negative threshold, finite or infinite, and a NaN give 0 whatever the coverage is.
  When the stages before it succeed, the value of the gate is the exit status of \<open>main\<close>.
\<close>

theorem threshold_gate_decides:
  "(fst (threshold_gate thr l) = 1 \<longleftrightarrow>
      float_gt thr (Finite 0) \<and> float_lt (float_add l epsilon) thr) \<and>
   (fst (threshold_gate thr l) = 0 \<or> fst (threshold_gate thr l) = 1) \<and>
   fst (threshold_gate (float_of_decimal 85) (float_of_decimal (849999995 / 10000000))) = 0 \<and>
   fst (threshold_gate (float_of_decimal 85) (float_of_decimal (8499 / 100))) = 1 \<and>
   fst (threshold_gate (Finite 0) l) = 0 \<and>
   fst (threshold_gate NegZero l) = 0 \<and>
   fst (threshold_gate (Finite (- \<bar>x\<bar>)) l) = 0 \<and>
   fst (threshold_gate NegInf l) = 0 \<and>
   fst (threshold_gate NaN l) = 0 \<and>
   (fst (prepare_and_test env args) = Inr () \<and> fst (collect_and_merge env args) = Inr () \<and>
    fst (export_and_report env args) = Inr (line_pct, func_pct, region_pct) \<and>
    fst (publish env args) = Inr () \<longrightarrow>
      fst (main env args) = Exit (fst (threshold_gate (threshold args) line_pct)))"
proof -
  have decides: "fst (threshold_gate thr l) = 1 \<longleftrightarrow>
      float_gt thr (Finite 0) \<and> float_lt (float_add l epsilon) thr"
    by (simp add: threshold_gate_def)
  have passes: "fst (threshold_gate (float_of_decimal 85)
      (float_of_decimal (849999995 / 10000000))) = 0"
    using just_below_85_passes by (simp add: threshold_gate_def threshold_85)
  have fails: "fst (threshold_gate (float_of_decimal 85) (float_of_decimal (8499 / 100))) = 1"
    using well_below_85_fails by (simp add: threshold_gate_def threshold_85 float_gt_def)
  have disabled: "fst (threshold_gate (Finite 0) l) = 0" "fst (threshold_gate NegZero l) = 0"
    "fst (threshold_gate (Finite (- \<bar>x\<bar>)) l) = 0" "fst (threshold_gate NegInf l) = 0"
    "fst (threshold_gate NaN l) = 0"
    by (simp_all add: threshold_gate_def float_gt_def)
  have exit: "fst (main env args) = Exit (fst (threshold_gate (threshold args) line_pct))"
    if "fst (prepare_and_test env args) = Inr ()" "fst (collect_and_merge env args) = Inr ()"
      "fst (export_and_report env args) = Inr (line_pct, func_pct, region_pct)"
      "fst (publish env args) = Inr ()"
    using main_reaches_gate [OF that] by simp
  from decides gate_status [of thr l] passes fails disabled exit show ?thesis
    by blast
qed

theorem threshold_gate_decides_witness:
  "fst (main sample_env sample_args) = Exit 1 \<and>
   fst (threshold_gate (Finite 85) (Finite (169 / 2))) = 1 \<and>
   fst (main sample_env (sample_args\<lparr>threshold := Finite (- 5)\<rparr>)) = Exit 0"
proof -
  have gate: "fst (threshold_gate (Finite 85) (Finite (169 / 2))) = 1"
    using sample_below_threshold by (simp add: threshold_gate_def float_gt_def)
  have thr: "threshold sample_args = Finite 85"
    by (simp add: sample_args_def)
  have stages: "fst (prepare_and_test sample_env sample_args) = Inr () \<and>
      fst (collect_and_merge sample_env sample_args) = Inr () \<and>
      fst (export_and_report sample_env sample_args) =
        Inr (Finite (169 / 2), Finite (361 / 4), Finite 75) \<and>
      fst (publish sample_env sample_args) = Inr ()"
    by (simp add: sample_tests_pass sample_merge_passes sample_report_written
        sample_nothing_to_publish)
  then have stages': "fst (prepare_and_test sample_env (sample_args\<lparr>threshold := Finite (- 5)\<rparr>)) = Inr () \<and>
      fst (collect_and_merge sample_env (sample_args\<lparr>threshold := Finite (- 5)\<rparr>)) = Inr () \<and>
      fst (export_and_report sample_env (sample_args\<lparr>threshold := Finite (- 5)\<rparr>)) =
        Inr (Finite (169 / 2), Finite (361 / 4), Finite 75) \<and>
      fst (publish sample_env (sample_args\<lparr>threshold := Finite (- 5)\<rparr>)) = Inr ()"
    by (simp add: prepare_ignores_threshold collect_ignores_threshold export_ignores_threshold
        publish_ignores_threshold)
  show ?thesis
    using threshold_gate_decides [of "Finite 85" "Finite (169 / 2)" 5 sample_env sample_args
        "Finite (169 / 2)" "Finite (361 / 4)" "Finite 75"]
      threshold_gate_decides [of "Finite (- 5)" "Finite (169 / 2)" 5 sample_env
        "sample_args\<lparr>threshold := Finite (- 5)\<rparr>" "Finite (169 / 2)" "Finite (361 / 4)" "Finite 75"]
      stages stages' gate thr
    by simp
qed

subsection \<open>The text of the report\<close>

lemma digit_char: "0 \<le> d \<Longrightarrow> d < 10 \<Longrightarrow> is_digit (nat (48 + d))"
  by (simp add: is_digit_def le_nat_iff nat_le_iff)

lemma decimal_digits: "0 \<le> n \<Longrightarrow> decimal n \<noteq> [] \<and> list_all is_digit (decimal n)"
proof (induction n rule: decimal.induct)
  case (1 n)
  show ?case
  proof (cases "n < 10")
    case True
    then have "decimal n = [nat (48 + n)]"
      by (subst decimal.simps) simp
    with True "1.prems" show ?thesis
      by (simp add: digit_char)
  next
    case False
    then have "0 \<le> n div 10"
      by simp
    with False "1.IH" have "list_all is_digit (decimal (n div 10))"
      by simp
    moreover have "is_digit (nat (48 + n mod 10))"
      by (rule digit_char) simp_all
    moreover have "decimal n = decimal (n div 10) @ [nat (48 + n mod 10)]"
      using False by (subst decimal.simps) simp
    ultimately show ?thesis
      by simp
  qed
qed

lemma round_half_even_nonneg: "0 \<le> x \<Longrightarrow> 0 \<le> round_half_even x"
  by (auto simp add: round_half_even_def Let_def)

lemma last_digits:
  "is_digit (nat (48 + h div 10 mod 10))" "is_digit (nat (48 + h mod 10))"
  by (rule digit_char; simp)+

lemma digit_is_plain: "is_digit c \<Longrightarrow> c < 128 \<and> c \<noteq> 10 \<and> c \<noteq> 45"
  by (simp add: is_digit_def)

lemma digits_are_plain: "list_all is_digit cs \<Longrightarrow> list_all (\<lambda>c. c < 128 \<and> c \<noteq> 10) cs"
  by (induction cs) (auto simp add: is_digit_def)

lemma format_2f_plain: "list_all (\<lambda>c. c < 128 \<and> c \<noteq> 10) (format_2f x)"
proof (cases x)
  case (Finite r)
  have "0 \<le> round_half_even (\<bar>r\<bar> * 100) div 100"
    using round_half_even_nonneg [of "\<bar>r\<bar> * 100"] by (simp add: pos_imp_zdiv_nonneg_iff)
  then have "list_all (\<lambda>c. c < 128 \<and> c \<noteq> 10) (decimal (round_half_even (\<bar>r\<bar> * 100) div 100))"
    using decimal_digits digits_are_plain by blast
  then show ?thesis
    using last_digits [of "round_half_even (\<bar>r\<bar> * 100)"]
    by (simp add: Finite format_2f_def Let_def lit_def is_digit_def)
qed (simp_all add: format_2f_def lit_def)

lemma format_2f_two_decimals: "two_decimals (format_2f (Finite r))"
proof -
  let ?h = "round_half_even (\<bar>r\<bar> * 100)"
  have "0 \<le> ?h div 100"
    using round_half_even_nonneg [of "\<bar>r\<bar> * 100"] by (simp add: pos_imp_zdiv_nonneg_iff)
  then have digits: "decimal (?h div 100) \<noteq> []" "list_all is_digit (decimal (?h div 100))"
    using decimal_digits by blast+
  then obtain c cs where front: "decimal (?h div 100) = c # cs"
    by (cases "decimal (?h div 100)") auto
  with digits have "is_digit c" "list_all is_digit cs"
    by simp_all
  then show ?thesis
    using last_digits [of ?h] digit_is_plain [of c]
    by (simp add: two_decimals_def format_2f_def Let_def lit_def front)
qed

lemma lines_from_piece:
  "10 \<notin> set s \<Longrightarrow> lines_from cur (s @ 10 # rest) = (cur @ s) # lines_from [] rest"
  by (induction s arbitrary: cur) simp_all

lemma plain_no_newline: "list_all (\<lambda>c. c < 128 \<and> c \<noteq> 10) s \<Longrightarrow> 10 \<notin> set s"
  by (induction s) auto

lemma report_lines_plain:
  "\<forall>s \<in> set (report_lines l f r). list_all (\<lambda>c. c < 128 \<and> c \<noteq> 10) s"
  using format_2f_plain [of l] format_2f_plain [of f] format_2f_plain [of r]
  by (simp add: report_lines_def) (simp add: lit_def)

lemma four_lines:
  assumes "10 \<notin> set a" "10 \<notin> set b" "10 \<notin> set c" "10 \<notin> set d"
  shows "text_lines (a @ 10 # b @ 10 # c @ 10 # d @ [10]) = [a, b, c, d]"
proof -
  have "lines_from [] (a @ 10 # b @ 10 # c @ 10 # d @ 10 # []) = [a, b, c, d]"
    using assms by (simp add: lines_from_piece)
  then show ?thesis
    by (simp add: text_lines_def)
qed

lemma report_text_lines: "text_lines (report_text l f r) = report_lines l f r"
proof -
  obtain a b c d where lines: "report_lines l f r = [a, b, c, d]"
    by (simp add: report_lines_def)
  with report_lines_plain [of l f r] have "10 \<notin> set a" "10 \<notin> set b" "10 \<notin> set c" "10 \<notin> set d"
    by (simp_all add: plain_no_newline)
  then show ?thesis
    by (simp add: report_text_def lines four_lines)
qed

lemma report_text_plain: "list_all (\<lambda>c. c < 128) (report_text l f r)"
  using format_2f_plain [of l] format_2f_plain [of f] format_2f_plain [of r]
  by (simp add: report_text_def report_lines_def list_all_iff) (auto simp add: lit_def)

lemma write_report_call: "snd (write_report env out l f r) = [WriteText out (report_text l f r)]"
  by (simp add: write_report_def snd_os_call)

lemma sample_report_text:
  "report_text (Finite (169 / 2)) (Finite (361 / 4)) (Finite 75) =
     lit ''Sparkle coverage summary'' @ [10] @
     lit ''Line coverage    : 84.50%'' @ [10] @
     lit ''Function coverage: 90.25%'' @ [10] @
     lit ''Region coverage  : 75.00%'' @ [10]"
  by (simp add: report_text_def report_lines_def sample_formats) (simp add: lit_def)

text \<open>
  C4 says that the summary consists of exactly three lines. It does not: the file
  starts with a title line, so that the summary of 84.5, 90.25 and 75 percent has four
  lines.
\<close>

theorem report_three_lines_counterexample:
  "text_lines (report_text (Finite (169 / 2)) (Finite (361 / 4)) (Finite 75)) =
     [lit ''Sparkle coverage summary'',
      lit ''Line coverage    : 84.50%'',
      lit ''Function coverage: 90.25%'',
      lit ''Region coverage  : 75.00%''] \<and>
   length (text_lines (report_text (Finite (169 / 2)) (Finite (361 / 4)) (Finite 75))) \<noteq> 3"
  by (simp add: report_text_lines report_lines_def sample_formats) (simp add: lit_def)

text \<open>
  C4, as the code has it. For every three percentages the text passed to \<open>write_text\<close>
  at the given output path has four lines: the title \<open>Sparkle coverage summary\<close>,
  then the line, function and region percentages in this order, each line made of its
  label, the number and a percent sign. A finite number is printed with two decimals
  (an infinity or a NaN prints as \<open>inf\<close>, \<open>-inf\<close> or \<open>nan\<close>). The call succeeds unless
  the environment reports an error, and afterwards the file holds this text whatever it
  held before.
\<close>

theorem report_is_title_and_three_percentages:
  "snd (write_report env out l f r) = [WriteText out (report_text l f r)] \<and>
   (write_error env = None \<longrightarrow> fst (write_report env out l f r) = Inr ()) \<and>
   write_text out (report_text l f r) files out = Some (report_text l f r) \<and>
   text_lines (report_text l f r) =
     [lit ''Sparkle coverage summary'',
      lit ''Line coverage    : '' @ format_2f l @ lit ''%'',
      lit ''Function coverage: '' @ format_2f f @ lit ''%'',
      lit ''Region coverage  : '' @ format_2f r @ lit ''%''] \<and>
   two_decimals (format_2f (Finite x)) \<and> two_decimals (format_2f NegZero)"
proof -
  have zero: "two_decimals (format_2f NegZero)"
    by (simp add: two_decimals_def format_2f_def lit_def is_digit_def)
  have ok: "write_error env = None \<longrightarrow> fst (write_report env out l f r) = Inr ()"
    by (simp add: write_report_def os_call_def)
  have kept: "write_text out (report_text l f r) files out = Some (report_text l f r)"
    by (simp add: write_text_def)
  from zero ok kept show ?thesis
    by (simp add: write_report_call report_text_lines report_lines_def format_2f_two_decimals)
qed

theorem report_is_title_and_three_percentages_witness:
  "write_report sample_env (lit ''/w/cov/s.txt'') (Finite (169 / 2)) (Finite (361 / 4)) (Finite 75) =
     (Inr (), [WriteText (lit ''/w/cov/s.txt'')
        (lit ''Sparkle coverage summary'' @ [10] @
         lit ''Line coverage    : 84.50%'' @ [10] @
         lit ''Function coverage: 90.25%'' @ [10] @
         lit ''Region coverage  : 75.00%'' @ [10])]) \<and>
   two_decimals (lit ''84.50'')"
proof -
  have ok: "write_error sample_env = None"
    by (simp add: sample_env_def)
  note report = report_is_title_and_three_percentages [of sample_env "lit ''/w/cov/s.txt''"
      "Finite (169 / 2)" "Finite (361 / 4)" "Finite 75" "Map.empty" "169 / 2",
      unfolded sample_report_text sample_formats]
  from report ok show ?thesis
    by (simp add: prod_eq_iff)
qed

lemma export_writes:
  assumes "fst (export_and_report env args) = Inr (l, f, r)"
  shows "filter writes_file (snd (export_and_report env args)) =
     [WriteText (output_file args) (report_text l f r)]"
  using assms unfolding export_and_report_def
  by (auto simp add: and_then_def write_report_def os_call_def export_summary_def Let_def
      split: prod.splits sum.splits option.splits completed.splits if_splits)

text \<open>
  C7. The text of the report is a function of the three percentages alone: whatever
  the environment, \<open>_write_report\<close> passes \<open>report_text\<close> of the percentages to
  \<open>write_text\<close>, all of its characters are ASCII, so that its UTF-8 bytes are its code
  points, and two runs that measure the same percentages and have the same output path
  write the same single file with the same text.
\<close>

theorem report_depends_only_on_percentages:
  "snd (write_report env out l f r) = [WriteText out (report_text l f r)] \<and>
   snd (write_report env' out l f r) = snd (write_report env out l f r) \<and>
   list_all (\<lambda>c. c < 128) (report_text l f r) \<and>
   (fst (export_and_report env args) = Inr (l, f, r) \<and>
    fst (export_and_report env' args') = Inr (l, f, r) \<and>
    output_file args' = output_file args \<longrightarrow>
      filter writes_file (snd (export_and_report env args)) =
        [WriteText (output_file args) (report_text l f r)] \<and>
      filter writes_file (snd (export_and_report env' args')) =
        filter writes_file (snd (export_and_report env args)))"
  using export_writes [of env args l f r] export_writes [of env' args' l f r]
  by (simp add: write_report_call report_text_plain)

theorem report_depends_only_on_percentages_witness:
  "filter writes_file (snd (export_and_report sample_env sample_args)) =
     [WriteText (lit ''/w/cov/s.txt'')
        (lit ''Sparkle coverage summary'' @ [10] @
         lit ''Line coverage    : 84.50%'' @ [10] @
         lit ''Function coverage: 90.25%'' @ [10] @
         lit ''Region coverage  : 75.00%'' @ [10])] \<and>
   filter writes_file (snd (export_and_report
     (sample_env\<lparr>environ := [], export_process := Completed 0 (lit ''[]'') (lit ''warn'')\<rparr>)
     (sample_args\<lparr>config := lit ''Release'', threshold := Finite 10\<rparr>))) =
   filter writes_file (snd (export_and_report sample_env sample_args))"
proof -
  let ?env = "sample_env\<lparr>environ := [],
    export_process := Completed 0 (lit ''[]'') (lit ''warn'')\<rparr>"
  let ?args = "sample_args\<lparr>config := lit ''Release'', threshold := Finite 10\<rparr>"
  have a: "fst (export_and_report sample_env sample_args) =
      Inr (Finite (169 / 2), Finite (361 / 4), Finite 75)"
    by (rule sample_report_written)
  have "fst (export_summary ?env c b ls p ig) = Inr sample_summary" for c b ls p ig
    by (simp add: export_summary_def Let_def sample_env_def)
  moreover have "write_error ?env = None"
    by (simp add: sample_env_def)
  moreover have "read_totals ?env sample_summary = Inr (Finite (169 / 2), Finite (361 / 4), Finite 75)"
    by (simp add: read_totals_def percent_def ok_then_def to_float_def sample_summary_def lit_def)
  ultimately have b: "fst (export_and_report ?env ?args) =
      Inr (Finite (169 / 2), Finite (361 / 4), Finite 75)"
    by (simp add: export_and_report_def and_then_ok and_then_Inr write_report_def os_call_def)
  have c: "output_file ?args = output_file sample_args"
    by simp
  have out: "output_file sample_args = lit ''/w/cov/s.txt''"
    by (simp add: sample_args_def)
  note same = report_depends_only_on_percentages [of sample_env "lit ''/w/cov/s.txt''"
      "Finite (169 / 2)" "Finite (361 / 4)" "Finite 75" ?env sample_args ?args,
      unfolded out sample_report_text]
  from same a b c show ?thesis
    by (simp add: out)
qed

end
